theory Spec2Isabelle
  imports Complex_Main
begin

section \<open>DashVolcano, pages/page\_5.py: TAS diagrams and chronogram\<close>

text \<open>
  A shallow embedding of the data pipeline of \<^verbatim>\<open>pages/page_5.py\<close>: the name
  resolution of \<^verbatim>\<open>update_charts_rock_vei\<close>, the GVP/GEOROC join of
  \<^verbatim>\<open>update_joint_chemchart\<close> and the superimposition of \<^verbatim>\<open>add_chems\<close>.
  The layout, the plotting primitives (\<^verbatim>\<open>plot_TAS\<close>, \<^verbatim>\<open>plot_chem\<close>,
  \<^verbatim>\<open>update_chronogram\<close>) and the modules \<^verbatim>\<open>config_variables\<close>,
  \<^verbatim>\<open>GVP_functions\<close> and \<^verbatim>\<open>Georoc_functions\<close> are outside the file; what the
  three functions read from them is a field of the environment record below.
\<close>

subsection \<open>Python values\<close>

text \<open>The exceptions the modelled statements can raise.\<close>

datatype error = IndexError | ValueError

text \<open>
  pandas stores the calendar columns as float64 because they hold missing values. A cell is
  modelled as \<open>int option\<close>, \<open>None\<close> being NaN. Every comparison with NaN is false.
\<close>

definition isnan :: "int option \<Rightarrow> bool" where
  "isnan x = (x = None)"

definition f_gt :: "int option \<Rightarrow> int \<Rightarrow> bool" where
  "f_gt x c = (case x of None \<Rightarrow> False | Some v \<Rightarrow> v > c)"

definition f_lt :: "int option \<Rightarrow> int \<Rightarrow> bool" where
  "f_lt x c = (case x of None \<Rightarrow> False | Some v \<Rightarrow> v < c)"

definition f_ge :: "int option \<Rightarrow> int \<Rightarrow> bool" where
  "f_ge x c = (case x of None \<Rightarrow> False | Some v \<Rightarrow> v \<ge> c)"

definition f_le :: "int option \<Rightarrow> int option \<Rightarrow> bool" where
  "f_le x y = (case x of None \<Rightarrow> False
               | Some a \<Rightarrow> (case y of None \<Rightarrow> False | Some b \<Rightarrow> a \<le> b))"

text \<open>
  \<^verbatim>\<open>Series.unique()\<close>: the distinct values in order of first appearance; NaN is one
  value.
\<close>

definition unique :: "'a list \<Rightarrow> 'a list" where
  "unique xs = rev (remdups (rev xs))"

text \<open>
  \<^verbatim>\<open>str.title()\<close> on ASCII text: a letter that follows a letter is lowered, any other
  letter is raised, every other character is kept and ends the word.
\<close>

definition is_lower :: "char \<Rightarrow> bool" where
  "is_lower c = (97 \<le> (of_char c :: nat) \<and> (of_char c :: nat) \<le> 122)"

definition is_upper :: "char \<Rightarrow> bool" where
  "is_upper c = (65 \<le> (of_char c :: nat) \<and> (of_char c :: nat) \<le> 90)"

definition to_upper :: "char \<Rightarrow> char" where
  "to_upper c = (if is_lower c then char_of ((of_char c :: nat) - 32) else c)"

definition to_lower :: "char \<Rightarrow> char" where
  "to_lower c = (if is_upper c then char_of ((of_char c :: nat) + 32) else c)"

fun title_from :: "bool \<Rightarrow> string \<Rightarrow> string" where
  "title_from previous_is_cased [] = []"
| "title_from previous_is_cased (c # cs) =
     (if is_lower c \<or> is_upper c
      then (if previous_is_cased then to_lower c else to_upper c) # title_from True cs
      else c # title_from False cs)"

definition title :: "string \<Rightarrow> string" where
  "title s = title_from False s"

text \<open>
  \<^verbatim>\<open>int(s)\<close> on a string: surrounding white space is dropped, a sign may lead, and the
  digits may be grouped by single underscores. Anything else raises \<^verbatim>\<open>ValueError\<close>
  (\<open>None\<close>).
\<close>

definition is_digit :: "char \<Rightarrow> bool" where
  "is_digit c = (48 \<le> (of_char c :: nat) \<and> (of_char c :: nat) \<le> 57)"

definition is_space :: "char \<Rightarrow> bool" where
  "is_space c = ((of_char c :: nat) = 32 \<or> (9 \<le> (of_char c :: nat) \<and> (of_char c :: nat) \<le> 13))"

definition strip :: "string \<Rightarrow> string" where
  "strip s = rev (dropWhile is_space (rev (dropWhile is_space s)))"

fun digits_ok :: "bool \<Rightarrow> string \<Rightarrow> bool" where
  "digits_ok after_digit [] = after_digit"
| "digits_ok after_digit (c # cs) =
     (if is_digit c then digits_ok True cs
      else if c = CHR ''_'' \<and> after_digit then digits_ok False cs
      else False)"

definition digits_value :: "string \<Rightarrow> nat" where
  "digits_value s = foldl (\<lambda>acc c. 10 * acc + ((of_char c :: nat) - 48)) 0 (filter is_digit s)"

definition py_int :: "string \<Rightarrow> int option" where
  "py_int s =
     (let t = strip s;
          negative = (case t of [] \<Rightarrow> False | c # _ \<Rightarrow> c = CHR ''-'');
          body = (case t of [] \<Rightarrow> []
                  | c # cs \<Rightarrow> if c = CHR ''-'' \<or> c = CHR ''+'' then cs else t)
      in if digits_ok False body
         then Some (if negative then - int (digits_value body) else int (digits_value body))
         else None)"

text \<open>\<^verbatim>\<open>s.split('-')[0]\<close>: the text before the first hyphen, all of it when there is none.\<close>

definition split_first :: "string \<Rightarrow> string" where
  "split_first s = takeWhile (\<lambda>c. c \<noteq> CHR ''-'') s"

subsection \<open>The tables\<close>

text \<open>
  A row of the GVP eruption table \<^verbatim>\<open>df\<close>, with the columns the page reads, and the four
  columns \<^verbatim>\<open>colsGvp\<close> that are carried into the joined table.
\<close>

record gvp_row =
  Volcano_Name :: string
  Start_Year :: int
  End_Year :: "int option"
  Start_Month :: "int option"
  End_Month :: "int option"
  VEI :: "int option"

type_synonym gvp_cols = "string \<times> int \<times> int option \<times> int option"

definition colsGvp :: "gvp_row \<Rightarrow> gvp_cols" where
  "colsGvp r = (Volcano_Name r, Start_Year r, End_Year r, VEI r)"

text \<open>
  A row of the GEOROC sample table (\<^verbatim>\<open>dfchem\<close>, \<^verbatim>\<open>thisdf\<close>). The oxide columns are
  weight percents, float64 cells (\<open>None\<close> is NaN, otherwise the exact value of the
  double); \<open>color\<close> is the rock class label.
\<close>

record sample =
  ERUPTION_YEAR :: "int option"
  ERUPTION_MONTH :: "int option"
  ERUPTION_DAY :: "int option"
  SIO2 :: "rat option"
  NA2O :: "rat option"
  K2O :: "rat option"
  color :: string

type_synonym joined = "gvp_cols \<times> sample"

text \<open>
  What the page reads from the modules that are not part of the file:
  the two alias dictionaries, the GVP table, the rock labels \<^verbatim>\<open>lbls\<close>, the text that
  \<^verbatim>\<open>astype(str)\<close> gives a cell of the \<^verbatim>\<open>Start Year\<close> and of the \<^verbatim>\<open>End Year\<close> column (it
  depends on the column's dtype, fixed where the table is loaded), and the date matcher
  \<^verbatim>\<open>match_GVPdates\<close> of \<^verbatim>\<open>GVP_functions\<close>: \<open>match_GVPdates_forall name n\<close> is
  \<^verbatim>\<open>match_GVPdates(name, 'forall', n)\<close>, a list of \<^verbatim>\<open>[year, [start, end]]\<close>, and
  \<open>match_GVPdates_date name date n\<close> is \<^verbatim>\<open>match_GVPdates(name, date, n)\<close>, a pair
  \<^verbatim>\<open>[start, end]\<close> whose first component is \<^verbatim>\<open>'not found'\<close> when there is no match.
  \<open>update_chemchart name date\<close> is the sample table \<^verbatim>\<open>dfchem\<close> that
  \<^verbatim>\<open>update_chemchart\<close> of \<^verbatim>\<open>Georoc_functions\<close> returns beside its figure.
\<close>

record env =
  dict_Georoc_sl :: "string \<rightharpoonup> string"
  dict_Georoc_GVP :: "string \<rightharpoonup> string"
  df :: "gvp_row list"
  lbls :: "string list"
  str_Start_Year :: "int \<Rightarrow> string"
  str_End_Year :: "int \<Rightarrow> string"
  match_GVPdates_forall :: "string \<Rightarrow> string \<Rightarrow> (int \<times> string \<times> string) list"
  match_GVPdates_date :: "string \<Rightarrow> string \<Rightarrow> string \<Rightarrow> string \<times> string"
  update_chemchart :: "string option \<Rightarrow> string \<Rightarrow> sample list"

subsection \<open>Name resolution\<close>

text \<open>
  Lines 276--284 of \<^verbatim>\<open>update_charts_rock_vei\<close> and, word for word, lines 322--330 of
  \<^verbatim>\<open>update_joint_chemchart\<close>.
\<close>

definition resolve_name :: "env \<Rightarrow> string \<Rightarrow> string" where
  "resolve_name e volcano_name =
     (let n = volcano_name;
          n = (if n \<in> dom (dict_Georoc_sl e) then the (dict_Georoc_sl e n) else n)
      in if n \<in> dom (dict_Georoc_GVP e) then the (dict_Georoc_GVP e n)
         else title volcano_name)"

subsection \<open>The record joiner: \<^verbatim>\<open>update_joint_chemchart\<close>\<close>

text \<open>
  Lines 336--339: a missing \<^verbatim>\<open>End Year\<close> takes the value of \<^verbatim>\<open>Start Year\<close>. The
  assignment is on \<^verbatim>\<open>dfmatchv\<close>, the rows of the chosen volcano.
\<close>

definition fill_End_Year :: "gvp_row \<Rightarrow> gvp_row" where
  "fill_End_Year row =
     row\<lparr>End_Year := (if End_Year row = None then Some (Start_Year row) else End_Year row)\<rparr>"

definition End_Year_str :: "env \<Rightarrow> gvp_row \<Rightarrow> string" where
  "End_Year_str e r = (case End_Year r of None \<Rightarrow> ''nan'' | Some y \<Rightarrow> str_End_Year e y)"

text \<open>Line 362: the rows whose two year cells, as text, equal the matched pair.\<close>

definition year_match :: "env \<Rightarrow> gvp_row list \<Rightarrow> string \<times> string \<Rightarrow> gvp_row list" where
  "year_match e dfmatchv se =
     filter (\<lambda>r. str_Start_Year e (Start_Year r) = fst se \<and> End_Year_str e r = snd se) dfmatchv"

text \<open>Lines 364--365: the months of the samples of year \<open>gy\<close>, and the usable ones.\<close>

definition georoc_months :: "sample list \<Rightarrow> int \<Rightarrow> int option list" where
  "georoc_months thisdf gy =
     unique (map ERUPTION_MONTH (filter (\<lambda>r. ERUPTION_YEAR r = Some gy) thisdf))"

definition clean_months :: "int option list \<Rightarrow> int option list" where
  "clean_months gm = filter (\<lambda>x. \<not> isnan x \<and> f_gt x 0) gm"

text \<open>Line 367: when the month match is tried.\<close>

definition month_test :: "string \<times> string \<Rightarrow> int option list \<Rightarrow> bool" where
  "month_test se gm = (fst se = snd se \<and> length (clean_months gm) > 0)"

text \<open>Lines 369--373: the month ranges of the event rows, cleaned, and the found pairs.\<close>

definition gvp_months :: "gvp_row list \<Rightarrow> (int option \<times> int option) list" where
  "gvp_months dfmatch =
     filter (\<lambda>x. \<not> isnan (fst x) \<and> f_gt (fst x) 0 \<and> \<not> isnan (snd x) \<and> f_gt (snd x) 0)
       (map (\<lambda>r. (Start_Month r, End_Month r)) dfmatch)"

definition found_months ::
  "(int option \<times> int option) list \<Rightarrow> int option list
     \<Rightarrow> (int option \<times> (int option \<times> int option)) list" where
  "found_months gvpm gm =
     concat (map (\<lambda>x. map (\<lambda>y. (y, x)) (filter (\<lambda>y. f_le (fst x) y \<and> f_le y (snd x)) gm)) gvpm)"

text \<open>
  Lines 367--380: the event rows and the sample months that go on to the join. The rows are
  kept by \<^verbatim>\<open>isin\<close> on each month column separately; \<^verbatim>\<open>isin\<close> is membership, and NaN is
  a member of a list that holds NaN.
\<close>

definition reconcile ::
  "string \<times> string \<Rightarrow> gvp_row list \<Rightarrow> int option list \<Rightarrow> gvp_row list \<times> int option list" where
  "reconcile se dfmatch gm =
     (if month_test se gm then
        (let fnd_months = found_months (gvp_months dfmatch) gm in
         if length fnd_months > 0 then
           (let gm' = map fst fnd_months;
                sm = map (\<lambda>x. fst (snd x)) fnd_months;
                em = map (\<lambda>x. snd (snd x)) fnd_months
            in (filter (\<lambda>r. Start_Month r \<in> set sm \<and> End_Month r \<in> set em) dfmatch, gm'))
         else (dfmatch, gm))
      else (dfmatch, gm))"

text \<open>Line 386: the samples of year \<open>gy\<close> whose month is in \<open>gm\<close>.\<close>

definition georoc_rows :: "sample list \<Rightarrow> int \<Rightarrow> int option list \<Rightarrow> sample list" where
  "georoc_rows thisdf gy gm =
     filter (\<lambda>r. ERUPTION_YEAR r = Some gy \<and> ERUPTION_MONTH r \<in> set gm) thisdf"

text \<open>
  Lines 359--390, one turn of the loop: the rows added to \<^verbatim>\<open>dfGvpGeo\<close> for one matched
  date. \<^verbatim>\<open>dfmatch[colsGvp].values[0]\<close> raises \<^verbatim>\<open>IndexError\<close> on a table with no row.
\<close>

definition join_date :: "env \<Rightarrow> gvp_row list \<Rightarrow> sample list \<Rightarrow> int \<times> string \<times> string
    \<Rightarrow> error + joined list" where
  "join_date e dfmatchv thisdf dse =
     (let gy = fst dse;
          se = snd dse;
          dfmatch = year_match e dfmatchv se;
          gm = georoc_months thisdf gy;
          (dfmatch, gm) = reconcile se dfmatch gm
      in case dfmatch of
           [] \<Rightarrow> Inl IndexError
         | rowgvp # _ \<Rightarrow> Inr (map (\<lambda>rw. (colsGvp rowgvp, rw)) (georoc_rows thisdf gy gm)))"

text \<open>Lines 357--390: the loop over the matched dates; an exception ends it.\<close>

fun join_dates :: "env \<Rightarrow> gvp_row list \<Rightarrow> sample list \<Rightarrow> (int \<times> string \<times> string) list
    \<Rightarrow> joined list \<Rightarrow> error + joined list" where
  "join_dates e dfmatchv thisdf [] dfGvpGeo = Inr dfGvpGeo"
| "join_dates e dfmatchv thisdf (dse # rest) dfGvpGeo =
     (case join_date e dfmatchv thisdf dse of
        Inl err \<Rightarrow> Inl err
      | Inr rowdf \<Rightarrow> join_dates e dfmatchv thisdf rest (dfGvpGeo @ rowdf))"

text \<open>Lines 342--350: the matched dates for the date selector.\<close>

definition matched_dates :: "env \<Rightarrow> string \<Rightarrow> string \<Rightarrow> string
    \<Rightarrow> error + (int \<times> string \<times> string) list" where
  "matched_dates e thisvolcano_name thisdate n =
     (if thisdate = ''all'' then Inr (match_GVPdates_forall e thisvolcano_name n)
      else
        (let this_date_gvp = match_GVPdates_date e thisvolcano_name thisdate n in
         if fst this_date_gvp \<noteq> ''not found'' then
           (case py_int (split_first thisdate) of
              None \<Rightarrow> Inl ValueError
            | Some y \<Rightarrow> Inr [(y, this_date_gvp)])
         else Inr []))"

text \<open>
  Lines 333--339: \<^verbatim>\<open>dfmatchv\<close>, the rows of the volcano \<open>n\<close>, their missing end years
  filled when there is a row at all.
\<close>

definition volcano_rows :: "env \<Rightarrow> string \<Rightarrow> gvp_row list" where
  "volcano_rows e n =
     (let dfmatchv = filter (\<lambda>r. Volcano_Name r = n) (df e)
      in if length dfmatchv > 0 then map fill_End_Year dfmatchv else dfmatchv)"

text \<open>
  Lines 317--399: the table \<^verbatim>\<open>dff\<close> that \<^verbatim>\<open>update_joint_chemchart\<close> returns and plots.
  The volcano name is \<open>None\<close> for Python's \<^verbatim>\<open>None\<close>.
\<close>

definition update_joint_chemchart :: "env \<Rightarrow> string option \<Rightarrow> sample list \<Rightarrow> string
    \<Rightarrow> error + joined list" where
  "update_joint_chemchart e thisvolcano_name thisdf thisdate =
     (case thisvolcano_name of
        None \<Rightarrow> Inr []
      | Some name \<Rightarrow>
          if name = ''start'' then Inr []
          else if name \<in> dom (dict_Georoc_GVP e) \<or> name \<in> dom (dict_Georoc_sl e) then
            (let n = resolve_name e name;
                 dfmatchv = volcano_rows e n
             in case matched_dates e name thisdate n of
                  Inl err \<Rightarrow> Inl err
                | Inr all_dates_gvp \<Rightarrow>
                    if length all_dates_gvp > 0
                    then join_dates e dfmatchv thisdf all_dates_gvp []
                    else Inr [])
          else Inr [])"

subsection \<open>The superimposer: \<^verbatim>\<open>add_chems\<close>\<close>

text \<open>Lines 423--435: the rows a period keeps. Any period but the two named ones is BC.\<close>

definition period_rows :: "string \<Rightarrow> sample \<Rightarrow> bool" where
  "period_rows thisperiod r =
     (if thisperiod = ''1679 and after'' then f_ge (ERUPTION_YEAR r) 1679
      else if thisperiod = ''before 1679''
        then f_lt (ERUPTION_YEAR r) 1679 \<and> f_gt (ERUPTION_YEAR r) 0
      else f_lt (ERUPTION_YEAR r) 0)"

text \<open>
  Lines 426--430, row by row: the four assignments to the \<^verbatim>\<open>month\<close> and \<^verbatim>\<open>day\<close>
  columns, in their order.
\<close>

definition clean_month_day :: "sample \<Rightarrow> sample" where
  "clean_month_day r =
     (let month = ERUPTION_MONTH r;
          month = (if f_gt month 12 then Some 1 else month);
          month = (if f_lt month 1 then Some 1 else month);
          day = ERUPTION_DAY r;
          day = (if f_gt day 31 then Some 1 else day);
          day = (if day = Some 0 then Some 1 else day)
      in r\<lparr>ERUPTION_MONTH := month, ERUPTION_DAY := day\<rparr>)"

text \<open>
  The oxide columns are float64. A cell is the exact rational value of its double.
  \<open>float64 x\<close> is the double nearest to the rational \<open>x\<close>, a tie going to the even
  mantissa: the result of every correctly rounded operation (reading a decimal literal,
  \<^verbatim>\<open>+\<close>, \<^verbatim>\<open>/\<close>). The exponent is unbounded: overflow and subnormal numbers,
  which weight percents do not reach, are not modelled. \<open>bit_length\<close> is Python's
  \<^verbatim>\<open>int.bit_length\<close>.
\<close>

definition round_half_even :: "rat \<Rightarrow> int" where
  "round_half_even q =
     (let f = \<lfloor>q\<rfloor>; d = q - of_int f
      in if d < 1 / 2 then f else if d > 1 / 2 then f + 1 else if even f then f else f + 1)"

function bit_length :: "int \<Rightarrow> int" where
  "bit_length n = (if n \<le> 0 then 0 else 1 + bit_length (n div 2))"
  by pat_completeness auto
termination
  by (relation "measure nat") auto

declare bit_length.simps [simp del]

definition pow2 :: "int \<Rightarrow> rat" where
  "pow2 k = (if 0 \<le> k then 2 ^ nat k else 1 / 2 ^ nat (- k))"

definition float64 :: "rat \<Rightarrow> rat" where
  "float64 x =
     (if x = 0 then 0
      else
        (let a = \<bar>x\<bar>;
             p = fst (quotient_of a); q = snd (quotient_of a);
             k = bit_length p - bit_length q;
             e = (if pow2 k \<le> a then k else k - 1);
             m = round_half_even (a / pow2 (e - 52))
         in sgn x * of_int m * pow2 (e - 52)))"

text \<open>
  Lines 438--440: \<^verbatim>\<open>round(x, 2)\<close> on a Python float. CPython rounds the exact value of
  the double to the nearest hundredth, an exact tie going to the even hundredth, and returns
  the double nearest to that decimal.
\<close>

definition py_round2 :: "rat \<Rightarrow> rat" where
  "py_round2 x = float64 (of_int (round_half_even (x * 100)) / 100)"

definition round_oxides :: "sample \<Rightarrow> sample" where
  "round_oxides r =
     r\<lparr>K2O := map_option py_round2 (K2O r),
       NA2O := map_option py_round2 (NA2O r),
       SIO2 := map_option py_round2 (SIO2 r)\<rparr>"

text \<open>Lines 423--440: the local table \<^verbatim>\<open>thisdf\<close> before the loop over the labels.\<close>

definition prepare :: "string \<Rightarrow> sample list \<Rightarrow> sample list" where
  "prepare thisperiod thisdf =
     map round_oxides
       (if thisperiod = ''1679 and after''
        then map clean_month_day (filter (period_rows thisperiod) thisdf)
        else filter (period_rows thisperiod) thisdf)"

text \<open>
  Line 448, \<^verbatim>\<open>pd.to_datetime\<close> on the columns year, month, day: pandas adds them up as
  \<open>year * 10000 + month * 100 + day\<close> and reads the sum in the format \<^verbatim>\<open>%Y%m%d\<close>. A
  row with a missing cell gives \<^verbatim>\<open>NaT\<close>; a sum that is no date of the calendar, or a date
  after the last nanosecond time stamp (11 April 2262), raises \<^verbatim>\<open>ValueError\<close>.
\<close>

datatype xval = Timestamp int int int | NaT | YearValue "int option"

definition leap_year :: "int \<Rightarrow> bool" where
  "leap_year y = (if y mod 100 = 0 then y mod 400 = 0 else y mod 4 = 0)"

definition days_in_month :: "int \<Rightarrow> int \<Rightarrow> int" where
  "days_in_month y m =
     (if m = 2 then (if leap_year y then 29 else 28)
      else if m = 4 \<or> m = 6 \<or> m = 9 \<or> m = 11 then 30 else 31)"

definition is_date :: "int \<Rightarrow> int \<Rightarrow> int \<Rightarrow> bool" where
  "is_date y m d =
     (1000 \<le> y \<and> 1 \<le> m \<and> m \<le> 12 \<and> 1 \<le> d \<and> d \<le> days_in_month y m \<and>
      (y < 2262 \<or> (y = 2262 \<and> (m < 4 \<or> (m = 4 \<and> d \<le> 11)))))"

definition to_datetime :: "sample \<Rightarrow> error + xval" where
  "to_datetime r =
     (case (ERUPTION_YEAR r, ERUPTION_MONTH r, ERUPTION_DAY r) of
        (Some year, Some month, Some day) \<Rightarrow>
          (let values = year * 10000 + month * 100 + day;
               y = values div 10000; m = (values div 100) mod 100; d = values mod 100
           in if is_date y m d then Inr (Timestamp y m d) else Inl ValueError)
      | _ \<Rightarrow> Inr NaT)"

fun to_datetimes :: "sample list \<Rightarrow> error + xval list" where
  "to_datetimes [] = Inr []"
| "to_datetimes (r # rs) =
     (case to_datetime r of
        Inl err \<Rightarrow> Inl err
      | Inr t \<Rightarrow> (case to_datetimes rs of Inl err \<Rightarrow> Inl err | Inr ts \<Rightarrow> Inr (t # ts)))"

text \<open>Lines 447--450: the horizontal values of one label's rows.\<close>

definition xdate :: "string \<Rightarrow> sample list \<Rightarrow> error + xval list" where
  "xdate thisperiod dffc =
     (if thisperiod = ''1679 and after'' then to_datetimes dffc
      else Inr (map (\<lambda>r. YearValue (ERUPTION_YEAR r)) dffc))"

text \<open>
  Lines 453--478: the two scatter traces of one label, with what the page sets of them:
  name, x, customdata and y. An operation on NaN gives NaN.
\<close>

record trace =
  trace_name :: string
  trace_x :: "xval list"
  trace_customdata :: "rat option list list"
  trace_y :: "rat option list"

definition f_add :: "rat option \<Rightarrow> rat option \<Rightarrow> rat option" where
  "f_add a b =
     (case a of None \<Rightarrow> None | Some x \<Rightarrow> map_option (\<lambda>y. float64 (x + y)) b)"

definition f_div :: "rat option \<Rightarrow> rat \<Rightarrow> rat option" where
  "f_div a c = map_option (\<lambda>x. float64 (x / c)) a"

text \<open>
  Lines 460 and 474: \<^verbatim>\<open>(0 - .4) + (K2O + NA2O)/100\<close> and
  \<^verbatim>\<open>(0 - .4) + SIO2/100\<close>, each operation rounded to a double.
\<close>

definition offset :: "rat" where
  "offset = float64 (0 - float64 (4 / 10))"

definition alkali_y :: "sample \<Rightarrow> rat option" where
  "alkali_y r = f_add (Some offset) (f_div (f_add (K2O r) (NA2O r)) 100)"

definition silica_y :: "sample \<Rightarrow> rat option" where
  "silica_y r = f_add (Some offset) (f_div (SIO2 r) 100)"

definition label_traces :: "string \<Rightarrow> sample list \<Rightarrow> string \<Rightarrow> error + trace list" where
  "label_traces thisperiod thisdf lbl =
     (let dffc = filter (\<lambda>r. color r = lbl) thisdf in
      case xdate thisperiod dffc of
        Inl err \<Rightarrow> Inl err
      | Inr xs \<Rightarrow>
          Inr [\<lparr>trace_name = ''NA2O+K2O'', trace_x = xs,
                trace_customdata = map (\<lambda>r. [NA2O r, K2O r]) dffc,
                trace_y = map alkali_y dffc\<rparr>,
               \<lparr>trace_name = ''SIO2'', trace_x = xs,
                trace_customdata = map (\<lambda>r. [SIO2 r]) dffc,
                trace_y = map silica_y dffc\<rparr>])"

fun add_traces :: "string \<Rightarrow> sample list \<Rightarrow> string list \<Rightarrow> trace list \<Rightarrow> error + trace list" where
  "add_traces thisperiod thisdf [] thisfig = Inr thisfig"
| "add_traces thisperiod thisdf (lbl # rest) thisfig =
     (case label_traces thisperiod thisdf lbl of
        Inl err \<Rightarrow> Inl err
      | Inr ts \<Rightarrow> add_traces thisperiod thisdf rest (thisfig @ ts))"

text \<open>
  \<^verbatim>\<open>add_chems\<close>: the figure is the list of its traces, the new ones added at the end.
\<close>

definition add_chems :: "env \<Rightarrow> sample list \<Rightarrow> trace list \<Rightarrow> string \<Rightarrow> error + trace list" where
  "add_chems e thisdf thisfig thisperiod =
     add_traces thisperiod (prepare thisperiod thisdf) (lbls e) thisfig"

subsection \<open>The callback: \<^verbatim>\<open>update_charts_rock_vei\<close>\<close>

text \<open>
  Lines 269--299. Of the three figures the model keeps what this file decides: the names
  handed to \<^verbatim>\<open>update_chronogram\<close> (\<open>None\<close> when the chronogram is the empty
  \<^verbatim>\<open>go.Figure()\<close>), the traces \<^verbatim>\<open>add_chems\<close> puts on it, and the joined table drawn in
  the second TAS diagram (\<open>None\<close> when only the TAS layout is drawn).
\<close>

record charts =
  chronogram_names :: "string list option"
  chronogram_traces :: "trace list"
  joined_table :: "joined list option"

definition update_charts_rock_vei ::
  "env \<Rightarrow> string option \<Rightarrow> string \<Rightarrow> string \<Rightarrow> string list \<Rightarrow> error + charts" where
  "update_charts_rock_vei e volcano_name date period_choice addGEOROC =
     (let dfchem = update_chemchart e volcano_name date in
      case volcano_name of
        None \<Rightarrow> Inr \<lparr>chronogram_names = None, chronogram_traces = [], joined_table = None\<rparr>
      | Some name \<Rightarrow>
          if name = ''start''
          then Inr \<lparr>chronogram_names = None, chronogram_traces = [], joined_table = None\<rparr>
          else
            (let n = resolve_name e name in
             case (if length addGEOROC > 0 then add_chems e dfchem [] period_choice else Inr []) of
               Inl err \<Rightarrow> Inl err
             | Inr fig2 \<Rightarrow>
                 (case update_joint_chemchart e volcano_name dfchem date of
                    Inl err \<Rightarrow> Inl err
                  | Inr dff \<Rightarrow>
                      Inr \<lparr>chronogram_names = Some [n], chronogram_traces = fig2,
                           joined_table = Some dff\<rparr>)))"

text \<open>
  The three values of the period radio button (lines 168--173), and the periods whose
  filter keeps a given sample.
\<close>

definition periods :: "string list" where
  "periods = [''BC'', ''before 1679'', ''1679 and after'']"

definition periods_of :: "sample \<Rightarrow> string list" where
  "periods_of r = filter (\<lambda>p. period_rows p r) periods"

subsection \<open>Example data\<close>

text \<open>The decimal text of an integer, as \<^verbatim>\<open>astype(str)\<close> gives it for an int64 column.\<close>

function str_nat :: "nat \<Rightarrow> string" where
  "str_nat n =
     (if n < 10 then [char_of (48 + n)] else str_nat (n div 10) @ [char_of (48 + n mod 10)])"
  by pat_completeness auto
termination
  by (relation "measure id") auto

declare str_nat.simps [simp del]

definition str_int :: "int \<Rightarrow> string" where
  "str_int i = (if i < 0 then CHR ''-'' # str_nat (nat (- i)) else str_nat (nat i))"

text \<open>
  An eruption of Krakatau that starts in 1883 and a GEOROC basalt sample.
\<close>

definition krakatau :: "int option \<Rightarrow> int option \<Rightarrow> int option \<Rightarrow> int option \<Rightarrow> gvp_row" where
  "krakatau ey sm em v =
     \<lparr>Volcano_Name = ''Krakatau'', Start_Year = 1883, End_Year = ey,
      Start_Month = sm, End_Month = em, VEI = v\<rparr>"

definition rock :: "int option \<Rightarrow> int option \<Rightarrow> int option \<Rightarrow> rat option \<Rightarrow> sample" where
  "rock y m d s =
     \<lparr>ERUPTION_YEAR = y, ERUPTION_MONTH = m, ERUPTION_DAY = d,
      SIO2 = s, NA2O = Some (7 / 2), K2O = Some (5 / 4), color = ''BASALT''\<rparr>"

text \<open>
  Modelled from the spec: the date matcher \<^verbatim>\<open>match_GVPdates\<close> of \<^verbatim>\<open>GVP_functions\<close>,
  which is not part of the file. For ``all'' it returns every distinct
  (year, [start, end]) pair of the volcano \<open>n\<close> in the event table; for one date it returns
  the pair of the eruption that starts in the year before the first hyphen of the
  selector, or the sentinel \<^verbatim>\<open>'not found'\<close>. A missing end year counts as the start year.
  It is used in the examples only: every theorem below holds for any matcher.
\<close>

definition year_pair :: "gvp_row \<Rightarrow> string \<times> string" where
  "year_pair r =
     (str_int (Start_Year r),
      str_int (case End_Year r of None \<Rightarrow> Start_Year r | Some y \<Rightarrow> y))"

definition example_match_forall :: "gvp_row list \<Rightarrow> string \<Rightarrow> (int \<times> string \<times> string) list" where
  "example_match_forall table n =
     unique (map (\<lambda>r. (Start_Year r, year_pair r)) (filter (\<lambda>r. Volcano_Name r = n) table))"

definition example_match_date :: "gvp_row list \<Rightarrow> string \<Rightarrow> string \<Rightarrow> string \<times> string" where
  "example_match_date table date n =
     (case filter (\<lambda>r. Volcano_Name r = n \<and> py_int (split_first date) = Some (Start_Year r))
             table of
        [] \<Rightarrow> (''not found'', ''not found'')
      | r # _ \<Rightarrow> year_pair r)"

text \<open>
  An environment with the given alias dictionaries, event table and sample table, integer
  year columns and two rock labels.
\<close>

definition example_env ::
  "(string \<times> string) list \<Rightarrow> (string \<times> string) list \<Rightarrow> gvp_row list \<Rightarrow> sample list \<Rightarrow> env" where
  "example_env sl gvp table samples =
     \<lparr>dict_Georoc_sl = map_of sl, dict_Georoc_GVP = map_of gvp, df = table,
      lbls = [''BASALT'', ''ANDESITE''],
      str_Start_Year = str_int, str_End_Year = str_int,
      match_GVPdates_forall = (\<lambda>name n. example_match_forall table n),
      match_GVPdates_date = (\<lambda>name date n. example_match_date table date n),
      update_chemchart = (\<lambda>name date. samples)\<rparr>"

section \<open>Properties\<close>

subsection \<open>Name resolution\<close>

text \<open>
  C6. Name resolution looks the raw name up in \<^verbatim>\<open>dict_Georoc_sl\<close>, then looks the
  (possibly replaced) name up in \<^verbatim>\<open>dict_Georoc_GVP\<close>; when the second lookup fails the
  result is the title-cased raw name, not the title-cased short form. The function is
  total: an unresolved name raises nothing.
\<close>

theorem resolve_name_lookups:
  "resolve_name e name =
     (case dict_Georoc_GVP e
             (case dict_Georoc_sl e name of None \<Rightarrow> name | Some short \<Rightarrow> short) of
        None \<Rightarrow> title name
      | Some canonical \<Rightarrow> canonical)"
  by (auto simp: resolve_name_def Let_def dom_def split: option.splits)

theorem resolve_name_lookups_witness:
  "resolve_name (example_env [(''KRAKATAU (KRAKATOA)'', ''KRAKATAU'')]
                   [(''KRAKATAU'', ''Krakatau'')] [] []) ''KRAKATAU (KRAKATOA)'' = ''Krakatau''
   \<and> resolve_name (example_env [(''KRAKATAU (KRAKATOA)'', ''KRAKATAU'')] [] [] [])
        ''KRAKATAU (KRAKATOA)'' = ''Krakatau (Krakatoa)''"
proof -
  have a: "(case dict_Georoc_GVP (example_env [(''KRAKATAU (KRAKATOA)'', ''KRAKATAU'')]
                   [(''KRAKATAU'', ''Krakatau'')] [] [])
             (case dict_Georoc_sl (example_env [(''KRAKATAU (KRAKATOA)'', ''KRAKATAU'')]
                   [(''KRAKATAU'', ''Krakatau'')] [] []) ''KRAKATAU (KRAKATOA)'' of
                None \<Rightarrow> ''KRAKATAU (KRAKATOA)'' | Some short \<Rightarrow> short) of
            None \<Rightarrow> title ''KRAKATAU (KRAKATOA)''
          | Some canonical \<Rightarrow> canonical) = ''Krakatau''"
    by code_simp
  have b: "(case dict_Georoc_GVP (example_env [(''KRAKATAU (KRAKATOA)'', ''KRAKATAU'')] [] [] [])
             (case dict_Georoc_sl (example_env [(''KRAKATAU (KRAKATOA)'', ''KRAKATAU'')] [] [] [])
                     ''KRAKATAU (KRAKATOA)'' of
                None \<Rightarrow> ''KRAKATAU (KRAKATOA)'' | Some short \<Rightarrow> short) of
            None \<Rightarrow> title ''KRAKATAU (KRAKATOA)''
          | Some canonical \<Rightarrow> canonical) = ''Krakatau (Krakatoa)''"
    by code_simp
  show ?thesis
    using a b
    by (simp only: resolve_name_lookups)
qed

subsection \<open>Periods\<close>

text \<open>
  C3, as the code has it. A sample of year \<open>y\<close> is kept by the BC filter exactly when
  \<open>y < 0\<close>, by the filter of ``before 1679'' exactly when \<open>0 < y < 1679\<close>, and by the
  filter of ``1679 and after'' exactly when \<open>1679 \<le> y\<close>. So every year but 0 is kept by
  exactly one period, and year 0 by none.
\<close>

theorem periods_of_year:
  assumes "ERUPTION_YEAR r = Some y"
  shows "(period_rows ''BC'' r \<longleftrightarrow> y < 0) \<and>
         (period_rows ''before 1679'' r \<longleftrightarrow> 0 < y \<and> y < 1679) \<and>
         (period_rows ''1679 and after'' r \<longleftrightarrow> 1679 \<le> y) \<and>
         length (periods_of r) = (if y = 0 then 0 else 1)"
  using assms
  by (auto simp: period_rows_def periods_of_def periods_def f_lt_def f_gt_def f_ge_def)

theorem periods_of_year_witness:
  "ERUPTION_YEAR (rock (Some 1883) (Some 5) (Some 20) None) = Some 1883 \<and>
   \<not> period_rows ''BC'' (rock (Some 1883) (Some 5) (Some 20) None) \<and>
   \<not> period_rows ''before 1679'' (rock (Some 1883) (Some 5) (Some 20) None) \<and>
   period_rows ''1679 and after'' (rock (Some 1883) (Some 5) (Some 20) None) \<and>
   length (periods_of (rock (Some 1883) (Some 5) (Some 20) None)) = 1"
proof -
  have h: "ERUPTION_YEAR (rock (Some 1883) (Some 5) (Some 20) None) = Some 1883"
    by (simp add: rock_def)
  show ?thesis
    using h periods_of_year [OF h] by simp
qed

text \<open>
  The claim as written puts year 0 in ``before 1679'' and has every year in exactly one
  period: a sample of year 0 is in none.
\<close>

theorem year_zero_counterexample:
  "\<not> period_rows ''before 1679'' (rock (Some 0) None None None) \<and>
   periods_of (rock (Some 0) None None None) = []"
  by (simp add: period_rows_def periods_of_def periods_def rock_def f_lt_def f_gt_def f_ge_def)

subsection \<open>The calendar date of a sample\<close>

lemma clean_month:
  "ERUPTION_MONTH (clean_month_day r) =
     (case ERUPTION_MONTH r of None \<Rightarrow> None
      | Some m \<Rightarrow> if 1 \<le> m \<and> m \<le> 12 then Some m else Some 1)"
  by (auto simp: clean_month_day_def Let_def f_gt_def f_lt_def split: option.splits)

lemma clean_day:
  "ERUPTION_DAY (clean_month_day r) =
     (case ERUPTION_DAY r of None \<Rightarrow> None
      | Some d \<Rightarrow> if d > 31 \<or> d = 0 then Some 1 else Some d)"
  by (auto simp: clean_month_day_def Let_def f_gt_def f_lt_def split: option.splits)

lemma clean_year: "ERUPTION_YEAR (clean_month_day r) = ERUPTION_YEAR r"
  by (simp add: clean_month_day_def Let_def)

lemma round_oxides_calendar:
  "ERUPTION_YEAR (round_oxides r) = ERUPTION_YEAR r"
  "ERUPTION_MONTH (round_oxides r) = ERUPTION_MONTH r"
  "ERUPTION_DAY (round_oxides r) = ERUPTION_DAY r"
  "color (round_oxides r) = color r"
  by (simp_all add: round_oxides_def)

lemma to_datetime_round_oxides: "to_datetime (round_oxides r) = to_datetime r"
  by (simp add: to_datetime_def round_oxides_calendar)

lemma split_hundred:
  fixes k d :: int
  assumes "0 \<le> d" "d < 100"
  shows "(k * 100 + d) div 100 = k" and "(k * 100 + d) mod 100 = d"
  using assms by simp_all

lemma assemble_date:
  fixes y m d :: int
  assumes "1 \<le> m" "m \<le> 12" "1 \<le> d" "d \<le> 31"
  shows "(y * 10000 + m * 100 + d) div 10000 = y"
    and "(y * 10000 + m * 100 + d) div 100 mod 100 = m"
    and "(y * 10000 + m * 100 + d) mod 100 = d"
proof -
  have a: "y * 10000 + m * 100 + d = (y * 100 + m) * 100 + d" by simp
  have d: "0 \<le> d" "d < 100" using assms by simp_all
  have m: "0 \<le> m" "m < 100" using assms by simp_all
  have b: "(y * 10000 + m * 100 + d) div 100 = y * 100 + m"
    by (simp only: a split_hundred(1) [OF d])
  show "(y * 10000 + m * 100 + d) div 100 mod 100 = m"
    by (simp only: b split_hundred(2) [OF m])
  show "(y * 10000 + m * 100 + d) mod 100 = d"
    by (simp only: a split_hundred(2) [OF d])
  have "(y * 10000 + m * 100 + d) div 10000 = (y * 10000 + m * 100 + d) div 100 div 100"
    by (simp add: div_mult2_eq [symmetric])
  also have "\<dots> = y"
    by (simp only: b split_hundred(1) [OF m])
  finally show "(y * 10000 + m * 100 + d) div 10000 = y" .
qed

lemma to_datetime_valid:
  assumes "ERUPTION_YEAR r = Some y" "ERUPTION_MONTH r = Some m" "ERUPTION_DAY r = Some d"
    and "1 \<le> m" "m \<le> 12" "1 \<le> d" "d \<le> 31"
  shows "to_datetime r = (if is_date y m d then Inr (Timestamp y m d) else Inl ValueError)"
  using assms assemble_date[of m d y]
  by (simp add: to_datetime_def Let_def)

text \<open>
  What the cleaning does to each cell, and the date that is built from a sample of a year
  from 1679 on whose day is not negative.
\<close>

lemma clean_month_day_date:
  "ERUPTION_MONTH (clean_month_day r) =
     (case ERUPTION_MONTH r of None \<Rightarrow> None
      | Some m \<Rightarrow> if 1 \<le> m \<and> m \<le> 12 then Some m else Some 1) \<and>
   ERUPTION_DAY (clean_month_day r) =
     (case ERUPTION_DAY r of None \<Rightarrow> None
      | Some d \<Rightarrow> if d > 31 \<or> d = 0 then Some 1 else Some d) \<and>
   (\<forall>y m d. ERUPTION_YEAR r = Some y \<and> 1679 \<le> y \<and> ERUPTION_MONTH r = Some m \<and>
        ERUPTION_DAY r = Some d \<and> 0 \<le> d \<longrightarrow>
      xdate ''1679 and after'' (prepare ''1679 and after'' [r]) =
        (let m' = (if 1 \<le> m \<and> m \<le> 12 then m else 1);
             d' = (if d > 31 \<or> d = 0 then 1 else d)
         in if is_date y m' d' then Inr [Timestamp y m' d'] else Inl ValueError))"
proof (intro conjI allI impI)
  show "ERUPTION_MONTH (clean_month_day r) =
     (case ERUPTION_MONTH r of None \<Rightarrow> None
      | Some m \<Rightarrow> if 1 \<le> m \<and> m \<le> 12 then Some m else Some 1)"
    by (rule clean_month)
  show "ERUPTION_DAY (clean_month_day r) =
     (case ERUPTION_DAY r of None \<Rightarrow> None
      | Some d \<Rightarrow> if d > 31 \<or> d = 0 then Some 1 else Some d)"
    by (rule clean_day)
next
  fix y m d
  assume h: "ERUPTION_YEAR r = Some y \<and> 1679 \<le> y \<and> ERUPTION_MONTH r = Some m \<and>
        ERUPTION_DAY r = Some d \<and> 0 \<le> d"
  define m' where "m' = (if 1 \<le> m \<and> m \<le> 12 then m else 1)"
  define d' where "d' = (if d > 31 \<or> d = 0 then 1 else d)"
  have keep: "period_rows ''1679 and after'' r"
    using h by (simp add: period_rows_def f_ge_def)
  have prep: "prepare ''1679 and after'' [r] = [round_oxides (clean_month_day r)]"
    using keep by (simp add: prepare_def)
  have cy: "ERUPTION_YEAR (clean_month_day r) = Some y" using h by (simp add: clean_year)
  have cm: "ERUPTION_MONTH (clean_month_day r) = Some m'"
    using h by (simp add: clean_month m'_def)
  have cd: "ERUPTION_DAY (clean_month_day r) = Some d'"
    using h by (simp add: clean_day d'_def)
  have rng: "1 \<le> m'" "m' \<le> 12" "1 \<le> d'" "d' \<le> 31"
    using h by (auto simp: m'_def d'_def)
  have "to_datetime (clean_month_day r) =
          (if is_date y m' d' then Inr (Timestamp y m' d') else Inl ValueError)"
    by (rule to_datetime_valid [OF cy cm cd rng])
  then have "xdate ''1679 and after'' (prepare ''1679 and after'' [r]) =
          (if is_date y m' d' then Inr [Timestamp y m' d'] else Inl ValueError)"
    by (simp add: xdate_def prep to_datetime_round_oxides)
  then show "xdate ''1679 and after'' (prepare ''1679 and after'' [r]) =
        (let m' = (if 1 \<le> m \<and> m \<le> 12 then m else 1);
             d' = (if d > 31 \<or> d = 0 then 1 else d)
         in if is_date y m' d' then Inr [Timestamp y m' d'] else Inl ValueError)"
    by (simp add: Let_def m'_def d'_def)
qed

lemma clean_month_day_date_example:
  "ERUPTION_MONTH (clean_month_day (rock (Some 1883) (Some 13) (Some 0) None)) = Some 1 \<and>
   ERUPTION_DAY (clean_month_day (rock (Some 1883) (Some 13) (Some 0) None)) = Some 1 \<and>
   xdate ''1679 and after'' (prepare ''1679 and after'' [rock (Some 1883) (Some 13) (Some 0) None])
     = Inr [Timestamp 1883 1 1]"
proof -
  let ?r = "rock (Some 1883) (Some 13) (Some 0) None"
  have f: "ERUPTION_YEAR ?r = Some 1883" "ERUPTION_MONTH ?r = Some 13" "ERUPTION_DAY ?r = Some 0"
    by (simp_all add: rock_def)
  have v: "is_date 1883 1 1"
    by (simp add: is_date_def days_in_month_def)
  show ?thesis
    using clean_month_day_date [of ?r] f v by (simp add: Let_def)
qed

text \<open>
  C7. The claim has every day outside 1..31 become 1, as the month outside 1..12 does. The
  code misses the negative days: line 427 sets every month below 1 to 1 (month -3 gives 1),
  but the day is only compared with 31 and replaced when it is 0. A day of -3 is kept, and
  \<^verbatim>\<open>pd.to_datetime\<close> raises on it; a day of -70 is kept, and the date built is 30 April
  for a sample of May.
\<close>

theorem negative_day_not_clamped:
  "ERUPTION_DAY (clean_month_day (rock (Some 1883) (Some 5) (Some (- 3)) None)) = Some (- 3) \<and>
   xdate ''1679 and after'' (prepare ''1679 and after'' [rock (Some 1883) (Some 5) (Some (- 3)) None])
     = Inl ValueError \<and>
   xdate ''1679 and after'' (prepare ''1679 and after'' [rock (Some 1883) (Some 5) (Some (- 70)) None])
     = Inr [Timestamp 1883 4 30] \<and>
   ERUPTION_MONTH (clean_month_day (rock (Some 1883) (Some (- 3)) (Some 20) None)) = Some 1"
  by code_simp

subsection \<open>The silica series\<close>

lemma round_half_even_near: "\<bar>of_int (round_half_even q) - q\<bar> \<le> 1 / 2"
proof -
  have lo: "of_int \<lfloor>q\<rfloor> \<le> q" and hi: "q < of_int \<lfloor>q\<rfloor> + 1"
    by linarith+
  show ?thesis
    using lo hi by (auto simp: round_half_even_def Let_def abs_le_iff)
qed

lemma bit_length_nonneg: "0 \<le> bit_length n"
proof (induction n rule: bit_length.induct)
  case (1 n)
  then show ?case by (subst bit_length.simps) simp
qed

lemma bit_length_step: "0 < n \<Longrightarrow> bit_length n = 1 + bit_length (n div 2)"
  by (subst bit_length.simps) simp

lemma bit_length_pos: "0 < n \<Longrightarrow> 1 \<le> bit_length n"
  using bit_length_step [of n] bit_length_nonneg [of "n div 2"] by simp

lemma bit_length_bounds:
  "0 < n \<Longrightarrow> 2 ^ nat (bit_length n - 1) \<le> n \<and> n < 2 ^ nat (bit_length n)"
proof (induction n rule: bit_length.induct)
  case (1 n)
  show ?case
  proof (cases "n = 1")
    case True
    have "bit_length 1 = 1"
      by (simp add: bit_length_step) (subst bit_length.simps, simp)
    then show ?thesis using True by simp
  next
    case False
    with "1.prems" have h: "0 < n div 2" by simp
    have "\<not> n \<le> 0" using "1.prems" by simp
    from "1.IH" [OF this h]
    have ih: "2 ^ nat (bit_length (n div 2) - 1) \<le> n div 2" "n div 2 < 2 ^ nat (bit_length (n div 2))"
      by simp_all
    have bl: "bit_length n = 1 + bit_length (n div 2)" using "1.prems" by (rule bit_length_step)
    have p: "1 \<le> bit_length (n div 2)" using bit_length_pos [OF h] .
    have e1: "nat (bit_length n - 1) = Suc (nat (bit_length (n div 2) - 1))"
      using bl p by simp
    have e2: "nat (bit_length n) = Suc (nat (bit_length (n div 2)))"
      using bl p by simp
    have "2 * 2 ^ nat (bit_length (n div 2) - 1) \<le> n" using ih(1) by linarith
    moreover have "n < 2 * 2 ^ nat (bit_length (n div 2))" using ih(2) by linarith
    ultimately show ?thesis by (simp add: e1 e2)
  qed
qed

lemma pow2_powi: "pow2 k = power_int 2 k"
  by (simp add: pow2_def power_int_def power_one_over inverse_eq_divide)

lemma pow2_pos: "0 < pow2 k"
  by (simp add: pow2_def)

lemma pow2_add: "pow2 (j + k) = pow2 j * pow2 k"
  by (simp add: pow2_powi power_int_add)

lemma pow2_nat_diff: "pow2 (int m - int n) = 2 ^ m / 2 ^ n"
  by (simp add: pow2_powi power_int_diff)

lemma exponent_below:
  assumes "0 < a" "p = fst (quotient_of a)" "q = snd (quotient_of a)"
  shows "pow2 (bit_length p - bit_length q - 1) \<le> a"
proof -
  have q: "0 < q" using assms(3) quotient_of_denom_pos' [of a] by simp
  have a: "a = of_int p / of_int q"
    using assms(2,3) quotient_of_div [of a p q] by simp
  have p: "0 < p"
    using assms(1) q a by (simp add: zero_less_divide_iff)
  have bp: "1 \<le> bit_length p" and bq: "1 \<le> bit_length q"
    using bit_length_pos p q by simp_all
  have lo: "(2::int) ^ nat (bit_length p - 1) \<le> p"
    using bit_length_bounds [OF p] by simp
  have hi: "q < (2::int) ^ nat (bit_length q)"
    using bit_length_bounds [OF q] by simp
  have k: "bit_length p - bit_length q - 1 = int (nat (bit_length p - 1)) - int (nat (bit_length q))"
    using bp bq by simp
  have lo': "(2::rat) ^ nat (bit_length p - 1) \<le> of_int p"
  proof -
    have "(of_int ((2::int) ^ nat (bit_length p - 1)) :: rat) \<le> of_int p"
      using lo by (simp only: of_int_le_iff)
    then show ?thesis by simp
  qed
  have hi': "(of_int q :: rat) \<le> 2 ^ nat (bit_length q)"
  proof -
    have "(of_int q :: rat) \<le> of_int ((2::int) ^ nat (bit_length q))"
      using hi by (simp only: of_int_le_iff)
    then show ?thesis by simp
  qed
  have "pow2 (bit_length p - bit_length q - 1) =
          2 ^ nat (bit_length p - 1) / 2 ^ nat (bit_length q)"
    by (simp only: k pow2_nat_diff)
  also have "\<dots> \<le> of_int p / 2 ^ nat (bit_length q)"
    using lo' by (simp add: divide_right_mono)
  also have "\<dots> \<le> of_int p / of_int q"
    using hi' p q by (simp add: divide_left_mono)
  finally show ?thesis using a by simp
qed

lemma float64_near: "\<bar>float64 x - x\<bar> \<le> \<bar>x\<bar> / 2 ^ 53"
proof (cases "x = 0")
  case True
  then show ?thesis by (simp add: float64_def)
next
  case False
  define a where "a = \<bar>x\<bar>"
  define p where "p = fst (quotient_of a)"
  define q where "q = snd (quotient_of a)"
  define k where "k = bit_length p - bit_length q"
  define e where "e = (if pow2 k \<le> a then k else k - 1)"
  define u where "u = pow2 (e - 52)"
  define m where "m = round_half_even (a / u)"
  have a: "0 < a" using False by (simp add: a_def)
  have u: "0 < u" by (simp add: u_def pow2_pos)
  have f: "float64 x = sgn x * of_int m * u"
    using False
    by (simp add: float64_def Let_def a_def p_def q_def k_def e_def u_def m_def)
  have x: "x = sgn x * a"
    by (simp add: a_def sgn_mult_abs)
  have e: "pow2 e \<le> a"
    using exponent_below [OF a p_def q_def] by (auto simp: e_def k_def)
  have "float64 x - x = sgn x * ((of_int m - a / u) * u)"
    using u by (subst x, subst f) (simp add: algebra_simps)
  then have "\<bar>float64 x - x\<bar> = \<bar>of_int m - a / u\<bar> * u"
    using False u by (simp add: abs_mult abs_sgn_eq)
  also have "\<dots> \<le> (1 / 2) * u"
    using round_half_even_near [of "a / u"] u
    by (simp add: m_def mult_right_mono)
  also have "(1 / 2) * u = pow2 e * pow2 (- 53)"
  proof -
    have "u = pow2 (e + (- 53) + 1)" by (simp add: u_def)
    also have "\<dots> = pow2 e * pow2 (- 53) * pow2 1" by (simp only: pow2_add)
    finally show ?thesis by (simp add: pow2_def)
  qed
  also have "\<dots> \<le> a * pow2 (- 53)"
    using e pow2_pos [of "- 53"] by (simp add: mult_right_mono)
  finally show ?thesis by (simp add: a_def pow2_def)
qed

lemma offset_value: "offset = - (3602879701896397 / 9007199254740992)"
  by code_simp

lemma round_half_even_range:
  assumes "0 \<le> q" "q \<le> 10000"
  shows "0 \<le> round_half_even q \<and> round_half_even q \<le> 10000"
proof -
  have n: "\<bar>of_int (round_half_even q) - q\<bar> \<le> 1 / 2"
    by (rule round_half_even_near)
  have "(- 1 :: rat) < of_int (round_half_even q)"
    using n assms by linarith
  then have a: "- 1 < round_half_even q"
    by linarith
  have "(of_int (round_half_even q) :: rat) < 10001"
    using n assms by linarith
  then have b: "round_half_even q < 10001"
    by linarith
  show ?thesis using a b by simp
qed

lemma silica_near:
  assumes "0 \<le> s" "s \<le> 100"
  shows "\<bar>float64 (offset + float64 (py_round2 s / 100)) - (s / 100 - 4 / 10)\<bar>
           \<le> 1 / 20000 + 1 / 10 ^ 15"
proof -
  define t where "t = (of_int (round_half_even (s * 100)) :: rat) / 100"
  define r where "r = float64 t"
  define u where "u = float64 (r / 100)"
  define y where "y = float64 (offset + u)"
  have rng: "0 \<le> round_half_even (s * 100) \<and> round_half_even (s * 100) \<le> 10000"
    using assms by (intro round_half_even_range) simp_all
  have t0: "0 \<le> t" and t1: "t \<le> 100"
    using rng by (simp_all add: t_def)
  have n: "\<bar>of_int (round_half_even (s * 100)) - s * 100\<bar> \<le> 1 / 2"
    by (rule round_half_even_near)
  have t100: "of_int (round_half_even (s * 100)) = t * 100"
    by (simp add: t_def)
  have ts: "\<bar>t - s\<bar> \<le> 1 / 200"
    using n unfolding t100 by linarith
  have p53: "(2::rat) ^ 53 = 9007199254740992" by simp
  have "\<bar>r - t\<bar> \<le> \<bar>t\<bar> / 2 ^ 53"
    unfolding r_def by (rule float64_near)
  then have rt: "\<bar>r - t\<bar> \<le> 100 / 9007199254740992"
    using t0 t1 unfolding p53 by linarith
  have r0: "- 1 \<le> r" and r1: "r \<le> 101"
    using rt t0 t1 by linarith+
  have "\<bar>u - r / 100\<bar> \<le> \<bar>r / 100\<bar> / 2 ^ 53"
    unfolding u_def by (rule float64_near)
  then have ur: "\<bar>u - r / 100\<bar> \<le> 101 / 900719925474099200"
    using r0 r1 unfolding p53 by linarith
  have u0: "- 1 \<le> u" and u1: "u \<le> 2"
    using ur r0 r1 by linarith+
  have ou: "\<bar>offset + u\<bar> \<le> 3"
    using u0 u1 unfolding offset_value by linarith
  have "\<bar>y - (offset + u)\<bar> \<le> \<bar>offset + u\<bar> / 2 ^ 53"
    unfolding y_def by (rule float64_near)
  also have "\<dots> \<le> 3 / 2 ^ 53"
    using ou by (rule divide_right_mono) simp
  finally have yo: "\<bar>y - (offset + u)\<bar> \<le> 3 / 9007199254740992"
    unfolding p53 .
  have o: "\<bar>offset + 4 / 10\<bar> \<le> 1 / 9007199254740992"
    unfolding offset_value by simp
  have p15: "(10::rat) ^ 15 = 1000000000000000" by simp
  have yo': "y - (offset + u) \<le> 3 / 9007199254740992"
    "offset + u - y \<le> 3 / 9007199254740992"
    using yo by linarith+
  have ur': "u - r / 100 \<le> 101 / 900719925474099200"
    "r / 100 - u \<le> 101 / 900719925474099200"
    using ur by linarith+
  have rt': "r - t \<le> 100 / 9007199254740992" "t - r \<le> 100 / 9007199254740992"
    using rt by linarith+
  have ts': "t - s \<le> 1 / 200" "s - t \<le> 1 / 200"
    using ts by linarith+
  have o': "offset + 4 / 10 \<le> 1 / 9007199254740992"
    "- (offset + 4 / 10) \<le> 1 / 9007199254740992"
    using o by linarith+
  have up: "y - (s / 100 - 4 / 10) \<le> 1 / 20000 + 1 / 10 ^ 15"
    unfolding p15 using yo'(1) ur'(1) rt'(1) ts'(1) o'(1) by linarith
  have lo: "- (1 / 20000 + 1 / 10 ^ 15) \<le> y - (s / 100 - 4 / 10)"
    unfolding p15 using yo'(2) ur'(2) rt'(2) ts'(2) o'(2) by linarith
  have "\<bar>y - (s / 100 - 4 / 10)\<bar> \<le> 1 / 20000 + 1 / 10 ^ 15"
    using up lo unfolding p15 by linarith
  then show ?thesis
    by (simp only: y_def u_def r_def t_def py_round2_def)
qed

lemma prepare_map:
  "prepare thisperiod thisdf =
     map (\<lambda>r. round_oxides (if thisperiod = ''1679 and after'' then clean_month_day r else r))
       (filter (period_rows thisperiod) thisdf)"
  by (simp add: prepare_def)

lemma clean_month_day_other:
  "color (clean_month_day r) = color r"
  "SIO2 (clean_month_day r) = SIO2 r"
  "NA2O (clean_month_day r) = NA2O r"
  "K2O (clean_month_day r) = K2O r"
  by (simp_all add: clean_month_day_def Let_def)

lemma round_oxides_color: "color (round_oxides r) = color r"
  by (simp add: round_oxides_def)

lemma round_oxides_SIO2: "SIO2 (round_oxides r) = map_option py_round2 (SIO2 r)"
  by (simp add: round_oxides_def)

lemma prepare_label:
  "filter (\<lambda>r. color r = lbl) (prepare thisperiod thisdf) =
     prepare thisperiod (filter (\<lambda>r. color r = lbl) thisdf)"
  by (induction thisdf) (auto simp: prepare_def round_oxides_color clean_month_day_other)

lemma silica_y_value:
  "silica_y r = map_option (\<lambda>s. float64 (offset + float64 (s / 100))) (SIO2 r)"
  by (cases "SIO2 r") (simp_all add: silica_y_def f_add_def f_div_def)

lemma silica_y_prepared:
  "map silica_y (prepare thisperiod rows) =
     map (\<lambda>r. map_option (\<lambda>s. float64 (offset + float64 (py_round2 s / 100))) (SIO2 r))
       (filter (period_rows thisperiod) rows)"
  by (simp add: prepare_map silica_y_value round_oxides_SIO2 clean_month_day_other
      option.map_comp comp_def)

lemma customdata_prepared:
  "map (\<lambda>r. [SIO2 r]) (prepare thisperiod rows) =
     map (\<lambda>r. [map_option py_round2 (SIO2 r)]) (filter (period_rows thisperiod) rows)"
  by (simp add: prepare_map round_oxides_SIO2 clean_month_day_other comp_def)

lemma round_ties: "py_round2 (1 / 8) = float64 (12 / 100) \<and> py_round2 (3 / 8) = float64 (38 / 100)"
  by code_simp

lemma round_doubles:
  "py_round2 (float64 (62355 / 1000)) = float64 (6235 / 100) \<and>
   py_round2 (float64 (2675 / 1000)) = float64 (267 / 100) \<and>
   py_round2 (float64 (61005 / 1000)) = float64 (6101 / 100)"
  by code_simp

text \<open>
  C9, as the code has it. For each label the trace named SIO2 plots, for every sample of the
  label that the period keeps, \<open>round(SiO2, 2) / 100 - 0.4\<close> in float64 arithmetic: the
  weight percent is rounded to two decimals first (an exact tie going to the even
  hundredth), then divided by 100 and offset; the hover data shows the rounded weight
  percent. For a weight percent between 0 and 100 the plotted value is within
  \<open>0.00005 + 10\<^sup>-\<^sup>1\<^sup>5\<close> of \<open>SiO2 / 100 - 0.4\<close>.
\<close>

theorem silica_series:
  "(label_traces thisperiod (prepare thisperiod thisdf) lbl = Inr ts \<longrightarrow>
      (\<exists>alkali silica. ts = [alkali, silica] \<and> trace_name silica = ''SIO2'' \<and>
         trace_y silica =
           map (\<lambda>r. map_option (\<lambda>s. float64 (offset + float64 (py_round2 s / 100))) (SIO2 r))
             (filter (period_rows thisperiod) (filter (\<lambda>r. color r = lbl) thisdf)) \<and>
         trace_customdata silica =
           map (\<lambda>r. [map_option py_round2 (SIO2 r)])
             (filter (period_rows thisperiod) (filter (\<lambda>r. color r = lbl) thisdf)))) \<and>
   (0 \<le> s \<and> s \<le> 100 \<longrightarrow>
      \<bar>float64 (offset + float64 (py_round2 s / 100)) - (s / 100 - 4 / 10)\<bar>
        \<le> 1 / 20000 + 1 / 10 ^ 15) \<and>
   offset = - float64 (4 / 10) \<and>
   py_round2 (1 / 8) = float64 (12 / 100) \<and> py_round2 (3 / 8) = float64 (38 / 100)"
proof (intro conjI impI)
  assume a: "label_traces thisperiod (prepare thisperiod thisdf) lbl = Inr ts"
  let ?dffc = "prepare thisperiod (filter (\<lambda>r. color r = lbl) thisdf)"
  obtain xs where ts: "ts =
      [\<lparr>trace_name = ''NA2O+K2O'', trace_x = xs,
         trace_customdata = map (\<lambda>r. [NA2O r, K2O r]) ?dffc, trace_y = map alkali_y ?dffc\<rparr>,
       \<lparr>trace_name = ''SIO2'', trace_x = xs,
         trace_customdata = map (\<lambda>r. [SIO2 r]) ?dffc, trace_y = map silica_y ?dffc\<rparr>]"
    using a by (auto simp: label_traces_def Let_def prepare_label split: sum.splits)
  show "\<exists>alkali silica. ts = [alkali, silica] \<and> trace_name silica = ''SIO2'' \<and>
         trace_y silica =
           map (\<lambda>r. map_option (\<lambda>s. float64 (offset + float64 (py_round2 s / 100))) (SIO2 r))
             (filter (period_rows thisperiod) (filter (\<lambda>r. color r = lbl) thisdf)) \<and>
         trace_customdata silica =
           map (\<lambda>r. [map_option py_round2 (SIO2 r)])
             (filter (period_rows thisperiod) (filter (\<lambda>r. color r = lbl) thisdf))"
    unfolding ts by (simp add: silica_y_prepared customdata_prepared)
next
  assume "0 \<le> s \<and> s \<le> 100"
  then show "\<bar>float64 (offset + float64 (py_round2 s / 100)) - (s / 100 - 4 / 10)\<bar>
        \<le> 1 / 20000 + 1 / 10 ^ 15"
    using silica_near [of s] by simp
next
  show "offset = - float64 (4 / 10)"
    by code_simp
  show "py_round2 (1 / 8) = float64 (12 / 100)" "py_round2 (3 / 8) = float64 (38 / 100)"
    using round_ties by simp_all
qed

lemma sample_62345_traces:
  "label_traces ''1679 and after''
       (prepare ''1679 and after''
          [rock (Some 1883) (Some 5) (Some 20) (Some (float64 (62345 / 1000)))])
       ''BASALT'' =
     Inr [\<lparr>trace_name = ''NA2O+K2O'', trace_x = [Timestamp 1883 5 20],
           trace_customdata = [[Some (7 / 2), Some (5 / 4)]],
           trace_y = [Some (- (396879717162025 / 1125899906842624))]\<rparr>,
          \<lparr>trace_name = ''SIO2'', trace_x = [Timestamp 1883 5 20],
           trace_customdata = [[Some (2193393756017787 / 35184372088832)]],
           trace_y = [Some (1006104156754569 / 4503599627370496)]\<rparr>]"
  by code_simp

lemma sample_62345_range: "0 \<le> float64 (62345 / 1000) \<and> float64 (62345 / 1000) \<le> 100"
  by code_simp

theorem silica_series_witness:
  "label_traces ''1679 and after'' (prepare ''1679 and after'' [rock (Some 1883) (Some 5) (Some 20) (Some (float64 (62345 / 1000)))]) ''BASALT'' =
     Inr [\<lparr>trace_name = ''NA2O+K2O'', trace_x = [Timestamp 1883 5 20],
           trace_customdata = [[Some (7 / 2), Some (5 / 4)]],
           trace_y = [Some (- (396879717162025 / 1125899906842624))]\<rparr>,
          \<lparr>trace_name = ''SIO2'', trace_x = [Timestamp 1883 5 20],
           trace_customdata = [[Some (2193393756017787 / 35184372088832)]],
           trace_y = [Some (1006104156754569 / 4503599627370496)]\<rparr>] \<and>
   (\<exists>alkali silica.
       [\<lparr>trace_name = ''NA2O+K2O'', trace_x = [Timestamp 1883 5 20],
           trace_customdata = [[Some (7 / 2), Some (5 / 4)]],
           trace_y = [Some (- (396879717162025 / 1125899906842624))]\<rparr>,
          \<lparr>trace_name = ''SIO2'', trace_x = [Timestamp 1883 5 20],
           trace_customdata = [[Some (2193393756017787 / 35184372088832)]],
           trace_y = [Some (1006104156754569 / 4503599627370496)]\<rparr>] = [alkali, silica] \<and> trace_name silica = ''SIO2'' \<and>
       trace_y silica =
         map (\<lambda>r. map_option (\<lambda>s. float64 (offset + float64 (py_round2 s / 100))) (SIO2 r))
           (filter (period_rows ''1679 and after'')
             (filter (\<lambda>r. color r = ''BASALT'') [rock (Some 1883) (Some 5) (Some 20) (Some (float64 (62345 / 1000)))])) \<and>
       trace_customdata silica =
         map (\<lambda>r. [map_option py_round2 (SIO2 r)])
           (filter (period_rows ''1679 and after'')
             (filter (\<lambda>r. color r = ''BASALT'') [rock (Some 1883) (Some 5) (Some 20) (Some (float64 (62345 / 1000)))]))) \<and>
   0 \<le> float64 (62345 / 1000) \<and> float64 (62345 / 1000) \<le> 100 \<and>
   \<bar>float64 (offset + float64 (py_round2 (float64 (62345 / 1000)) / 100))
      - (float64 (62345 / 1000) / 100 - 4 / 10)\<bar> \<le> 1 / 20000 + 1 / 10 ^ 15"
  using sample_62345_traces sample_62345_range
    silica_series [of "''1679 and after''" "[rock (Some 1883) (Some 5) (Some 20) (Some (float64 (62345 / 1000)))]" "''BASALT''"
      "[\<lparr>trace_name = ''NA2O+K2O'', trace_x = [Timestamp 1883 5 20],
           trace_customdata = [[Some (7 / 2), Some (5 / 4)]],
           trace_y = [Some (- (396879717162025 / 1125899906842624))]\<rparr>,
          \<lparr>trace_name = ''SIO2'', trace_x = [Timestamp 1883 5 20],
           trace_customdata = [[Some (2193393756017787 / 35184372088832)]],
           trace_y = [Some (1006104156754569 / 4503599627370496)]\<rparr>]" "float64 (62345 / 1000)"]
  by blast

text \<open>
  The claim as written has a sample of SiO2 = 62.345 at 0.62 - 0.4 = -0.38. The code rounds
  62.345 to 62.34 and plots the double 0.22340000000000004.
\<close>

theorem silica_62345_counterexample:
  "(case add_chems (example_env [] [] [] []) [rock (Some 1883) (Some 5) (Some 20) (Some (float64 (62345 / 1000)))] [] ''1679 and after'' of
      Inl err \<Rightarrow> False
    | Inr fig \<Rightarrow> map trace_name fig = [''NA2O+K2O'', ''SIO2'', ''NA2O+K2O'', ''SIO2''] \<and>
        map trace_y fig =
          [[Some (- (396879717162025 / 1125899906842624))],
           [Some (1006104156754569 / 4503599627370496)], [], []]) \<and>
   (1006104156754569 / 4503599627370496 :: rat) \<noteq> float64 (- (38 / 100)) \<and>
   \<bar>(1006104156754569 / 4503599627370496 :: rat) - 2234 / 10000\<bar> \<le> 1 / 10 ^ 15"
  by code_simp

subsection \<open>The record joiner\<close>

lemma set_unique: "set (unique xs) = set xs"
  by (simp add: unique_def)

lemma set_georoc_months:
  "set (georoc_months thisdf gy) =
     ERUPTION_MONTH ` {r \<in> set thisdf. ERUPTION_YEAR r = Some gy}"
  by (simp add: georoc_months_def set_unique)

lemma set_found_months:
  "set (found_months gvpm gm) =
     {(y, x). x \<in> set gvpm \<and> y \<in> set gm \<and> f_le (fst x) y \<and> f_le y (snd x)}"
  by (auto simp: found_months_def)

lemma set_gvp_months:
  "set (gvp_months dfmatch) =
     {(a, b). (\<exists>r \<in> set dfmatch. Start_Month r = a \<and> End_Month r = b) \<and> f_gt a 0 \<and> f_gt b 0}"
  by (auto simp: gvp_months_def isnan_def f_gt_def image_iff split: option.splits) force+


lemma found_month_positive:
  assumes "(y, x) \<in> set (found_months (gvp_months dfmatch) gm)"
  shows "f_gt y 0"
  using assms
  by (auto simp: set_found_months set_gvp_months f_gt_def f_le_def split: option.splits)

lemma reconcile_cases:
  "reconcile se dfmatch gm =
     (let fnd_months = found_months (gvp_months dfmatch) gm in
      if month_test se gm \<and> fnd_months \<noteq> []
      then (filter (\<lambda>r. Start_Month r \<in> (\<lambda>x. fst (snd x)) ` set fnd_months \<and>
                        End_Month r \<in> (\<lambda>x. snd (snd x)) ` set fnd_months) dfmatch,
            map fst fnd_months)
      else (dfmatch, gm))"
  by (simp add: reconcile_def Let_def)

lemma found_row_kept:
  assumes "r \<in> set dfmatch"
    and "(y, (Start_Month r, End_Month r)) \<in> set (found_months (gvp_months dfmatch) gm)"
    and "month_test se gm"
  shows "r \<in> set (fst (reconcile se dfmatch gm))"
proof -
  have "found_months (gvp_months dfmatch) gm \<noteq> []"
    using assms(2) by auto
  moreover have "Start_Month r \<in> (\<lambda>x. fst (snd x)) ` set (found_months (gvp_months dfmatch) gm)"
    using assms(2) by force
  moreover have "End_Month r \<in> (\<lambda>x. snd (snd x)) ` set (found_months (gvp_months dfmatch) gm)"
    using assms(2) by force
  ultimately show ?thesis
    using assms(1,3) by (simp add: reconcile_cases Let_def)
qed

lemma reconcile_nonempty:
  "fst (reconcile se dfmatch gm) = [] \<longleftrightarrow> dfmatch = []"
proof (cases "month_test se gm \<and> found_months (gvp_months dfmatch) gm \<noteq> []")
  case False
  then show ?thesis by (auto simp: reconcile_cases Let_def)
next
  case True
  then obtain y x where yx: "(y, x) \<in> set (found_months (gvp_months dfmatch) gm)"
    by (cases "found_months (gvp_months dfmatch) gm") auto
  then have "x \<in> set (gvp_months dfmatch)"
    by (simp add: set_found_months)
  then obtain r where r: "r \<in> set dfmatch" "x = (Start_Month r, End_Month r)"
    by (auto simp: set_gvp_months)
  have "r \<in> set (fst (reconcile se dfmatch gm))"
    using found_row_kept [of r dfmatch y gm se] r yx True by simp
  then show ?thesis using r(1) by auto
qed

lemma reconcile_subset: "set (fst (reconcile se dfmatch gm)) \<subseteq> set dfmatch"
  by (auto simp: reconcile_cases Let_def)

lemma georoc_rows_all:
  "georoc_rows thisdf gy (georoc_months thisdf gy) =
     filter (\<lambda>r. ERUPTION_YEAR r = Some gy) thisdf"
  unfolding georoc_rows_def
  by (rule filter_cong) (auto simp: set_georoc_months)

lemma join_date_cases:
  "join_date e dfmatchv thisdf (gy, se) =
     (let r = reconcile se (year_match e dfmatchv se) (georoc_months thisdf gy) in
      case fst r of
        [] \<Rightarrow> Inl IndexError
      | rowgvp # _ \<Rightarrow> Inr (map (\<lambda>rw. (colsGvp rowgvp, rw)) (georoc_rows thisdf gy (snd r))))"
  by (simp add: join_date_def Let_def case_prod_beta)

lemma join_date_error:
  "join_date e dfmatchv thisdf dse = Inl err \<longleftrightarrow>
     err = IndexError \<and> year_match e dfmatchv (snd dse) = []"
proof -
  obtain gy se where dse: "dse = (gy, se)" by (cases dse)
  show ?thesis
    using reconcile_nonempty [of se "year_match e dfmatchv se" "georoc_months thisdf gy"]
    by (auto simp: dse join_date_cases Let_def split: list.splits)
qed

lemma join_dates_error:
  "join_dates e dfmatchv thisdf all_dates_gvp dfGvpGeo = Inl err \<longleftrightarrow>
     err = IndexError \<and> (\<exists>dse \<in> set all_dates_gvp. year_match e dfmatchv (snd dse) = [])"
proof (induction all_dates_gvp arbitrary: dfGvpGeo)
  case Nil
  then show ?case by simp
next
  case (Cons dse rest)
  show ?case
  proof (cases "join_date e dfmatchv thisdf dse")
    case (Inl err')
    then show ?thesis
      using join_date_error [of e dfmatchv thisdf dse err'] by auto
  next
    case (Inr rowdf)
    then have "year_match e dfmatchv (snd dse) \<noteq> []"
      using join_date_error [of e dfmatchv thisdf dse IndexError] by auto
    then show ?thesis
      using Inr Cons.IH [of "dfGvpGeo @ rowdf"] by simp
  qed
qed






lemma join_date_rows:
  assumes "join_date e dfmatchv thisdf (gy, se) = Inr rowdf"
  shows "map snd rowdf =
     georoc_rows thisdf gy (snd (reconcile se (year_match e dfmatchv se) (georoc_months thisdf gy)))"
    and "\<exists>rowgvp \<in> set (year_match e dfmatchv se). \<forall>j \<in> set rowdf. fst j = colsGvp rowgvp"
proof -
  let ?r = "reconcile se (year_match e dfmatchv se) (georoc_months thisdf gy)"
  obtain rowgvp rest where f: "fst ?r = rowgvp # rest"
    and rowdf: "rowdf = map (\<lambda>rw. (colsGvp rowgvp, rw)) (georoc_rows thisdf gy (snd ?r))"
    using assms by (auto simp: join_date_cases Let_def split: list.splits)
  show "map snd rowdf = georoc_rows thisdf gy (snd ?r)"
    by (simp add: rowdf comp_def)
  have "rowgvp \<in> set (year_match e dfmatchv se)"
    using f reconcile_subset [of se "year_match e dfmatchv se" "georoc_months thisdf gy"]
    by auto
  then show "\<exists>rowgvp \<in> set (year_match e dfmatchv se). \<forall>j \<in> set rowdf. fst j = colsGvp rowgvp"
    by (auto simp: rowdf)
qed

text \<open>
  C4, as the code has it. Every sample joined for a matched date is a sample of the table
  with the matched year. When the month match was tried and found a combination, each of
  them has a month above 0 (not NaN). Otherwise the joined samples are all the samples of
  the matched year, whatever their month: 0, negative or missing as well.
\<close>

theorem joined_sample_months:
  assumes "join_date e dfmatchv thisdf (gy, se) = Inr rowdf"
  shows "(\<forall>j \<in> set rowdf. snd j \<in> set thisdf \<and> ERUPTION_YEAR (snd j) = Some gy) \<and>
    (month_test se (georoc_months thisdf gy) \<and>
       found_months (gvp_months (year_match e dfmatchv se)) (georoc_months thisdf gy) \<noteq> [] \<longrightarrow>
         (\<forall>j \<in> set rowdf. f_gt (ERUPTION_MONTH (snd j)) 0)) \<and>
    (\<not> (month_test se (georoc_months thisdf gy) \<and>
       found_months (gvp_months (year_match e dfmatchv se)) (georoc_months thisdf gy) \<noteq> []) \<longrightarrow>
         map snd rowdf = filter (\<lambda>r. ERUPTION_YEAR r = Some gy) thisdf)"
proof -
  let ?gm = "georoc_months thisdf gy"
  let ?dfmatch = "year_match e dfmatchv se"
  have rows: "map snd rowdf = georoc_rows thisdf gy (snd (reconcile se ?dfmatch ?gm))"
    by (rule join_date_rows(1) [OF assms])
  have a: "\<forall>j \<in> set rowdf. snd j \<in> set thisdf \<and> ERUPTION_YEAR (snd j) = Some gy"
  proof
    fix j assume "j \<in> set rowdf"
    then have "snd j \<in> set (map snd rowdf)" by simp
    then show "snd j \<in> set thisdf \<and> ERUPTION_YEAR (snd j) = Some gy"
      unfolding rows by (simp add: georoc_rows_def)
  qed
  have b: "\<forall>j \<in> set rowdf. f_gt (ERUPTION_MONTH (snd j)) 0"
    if t: "month_test se ?gm \<and> found_months (gvp_months ?dfmatch) ?gm \<noteq> []"
  proof
    fix j assume "j \<in> set rowdf"
    then have "snd j \<in> set (map snd rowdf)" by simp
    then have "ERUPTION_MONTH (snd j) \<in> fst ` set (found_months (gvp_months ?dfmatch) ?gm)"
      unfolding rows using t by (simp add: georoc_rows_def reconcile_cases Let_def)
    then show "f_gt (ERUPTION_MONTH (snd j)) 0"
      using found_month_positive [of _ _ ?dfmatch ?gm] by force
  qed
  have c: "map snd rowdf = filter (\<lambda>r. ERUPTION_YEAR r = Some gy) thisdf"
    if "\<not> (month_test se ?gm \<and> found_months (gvp_months ?dfmatch) ?gm \<noteq> [])"
    unfolding rows using that by (auto simp: reconcile_cases Let_def georoc_rows_all)
  show ?thesis using a b c by blast
qed

lemma reconciled_join:
  "join_date (example_env [] [] [] [])
      [krakatau (Some 1883) (Some 4) (Some 6) (Some 6),
       krakatau (Some 1883) (Some 8) (Some 8) (Some 2)]
      [rock (Some 1883) (Some 5) (Some 20) None, rock (Some 1883) (Some 9) None None,
       rock (Some 1883) (Some 0) None None, rock (Some 1884) (Some 5) None None]
      (1883, ''1883'', ''1883'') =
    Inr [((''Krakatau'', 1883, Some 1883, Some 6), rock (Some 1883) (Some 5) (Some 20) None)]"
  by code_simp

lemma reconciled_join_test:
  "month_test (''1883'', ''1883'')
     (georoc_months [rock (Some 1883) (Some 5) (Some 20) None, rock (Some 1883) (Some 9) None None,
       rock (Some 1883) (Some 0) None None, rock (Some 1884) (Some 5) None None] 1883) \<and>
   found_months (gvp_months (year_match (example_env [] [] [] [])
      [krakatau (Some 1883) (Some 4) (Some 6) (Some 6),
       krakatau (Some 1883) (Some 8) (Some 8) (Some 2)] (''1883'', ''1883'')))
     (georoc_months [rock (Some 1883) (Some 5) (Some 20) None, rock (Some 1883) (Some 9) None None,
       rock (Some 1883) (Some 0) None None, rock (Some 1884) (Some 5) None None] 1883) \<noteq> []"
  by code_simp

theorem joined_sample_months_witness:
  "join_date (example_env [] [] [] [])
      [krakatau (Some 1883) (Some 4) (Some 6) (Some 6),
       krakatau (Some 1883) (Some 8) (Some 8) (Some 2)]
      [rock (Some 1883) (Some 5) (Some 20) None, rock (Some 1883) (Some 9) None None,
       rock (Some 1883) (Some 0) None None, rock (Some 1884) (Some 5) None None]
      (1883, ''1883'', ''1883'') =
    Inr [((''Krakatau'', 1883, Some 1883, Some 6), rock (Some 1883) (Some 5) (Some 20) None)] \<and>
   f_gt (ERUPTION_MONTH (snd ((''Krakatau'', 1883 :: int, Some (1883 :: int), Some (6 :: int)),
           rock (Some 1883) (Some 5) (Some 20) None))) 0 \<and>
   ERUPTION_YEAR (snd ((''Krakatau'', 1883 :: int, Some (1883 :: int), Some (6 :: int)),
           rock (Some 1883) (Some 5) (Some 20) None)) = Some 1883"
  using joined_sample_months [OF reconciled_join] reconciled_join reconciled_join_test
  by simp

text \<open>
  The claim as written has a month above 0 on every joined sample, on the fallback path as
  well. Here the eruption has no months, so no combination is found: the samples of 1883
  with month 0 and with no month are joined.
\<close>

theorem fallback_month_counterexample:
  "update_joint_chemchart
     (example_env [] [(''KRAKATAU'', ''Krakatau'')] [krakatau None None None (Some 6)] [])
     (Some ''KRAKATAU'')
     [rock (Some 1883) (Some 5) (Some 20) None, rock (Some 1883) (Some 0) None None,
      rock (Some 1883) None None None, rock (Some 1884) (Some 5) None None] ''all'' =
   Inr [((''Krakatau'', 1883, Some 1883, Some 6), rock (Some 1883) (Some 5) (Some 20) None),
        ((''Krakatau'', 1883, Some 1883, Some 6), rock (Some 1883) (Some 0) None None),
        ((''Krakatau'', 1883, Some 1883, Some 6), rock (Some 1883) None None None)] \<and>
   \<not> f_gt (ERUPTION_MONTH (rock (Some 1883) (Some 0) None None)) 0 \<and>
   isnan (ERUPTION_MONTH (rock (Some 1883) None None None))"
  by code_simp

lemma joiner_unaliased:
  assumes "dict_Georoc_sl e name = None" "dict_Georoc_GVP e name = None"
  shows "update_joint_chemchart e (Some name) thisdf thisdate = Inr []"
  using assms by (simp add: update_joint_chemchart_def dom_def)

lemma resolve_name_unaliased:
  assumes "dict_Georoc_sl e name = None" "dict_Georoc_GVP e name = None"
  shows "resolve_name e name = title name"
  using assms by (simp add: resolve_name_def Let_def dom_def)










text \<open>
  C10. For a raw name other than \<^verbatim>\<open>'start'\<close> that is in neither alias dictionary, the
  callback hands the title-cased raw name to \<^verbatim>\<open>update_chronogram\<close>, and the joined table
  is empty, whatever the event table holds; the callback fails only if \<^verbatim>\<open>add_chems\<close>
  does. In the example the title-cased name is a volcano of the event table, with an
  eruption in 1883 that the date matcher returns and a sample of 1883: the chronogram shows
  the eruption and the joined table is empty.
\<close>

theorem unaliased_charts:
  assumes "dict_Georoc_sl e name = None" "dict_Georoc_GVP e name = None" "name \<noteq> ''start''"
  shows "update_charts_rock_vei e (Some name) date period_choice addGEOROC =
     (case (if length addGEOROC > 0
            then add_chems e (update_chemchart e (Some name) date) [] period_choice
            else Inr []) of
        Inl err \<Rightarrow> Inl err
      | Inr fig2 \<Rightarrow>
          Inr \<lparr>chronogram_names = Some [title name], chronogram_traces = fig2,
               joined_table = Some []\<rparr>)"
  using assms
  by (simp add: update_charts_rock_vei_def Let_def joiner_unaliased resolve_name_unaliased
      split: sum.splits)

lemma unaliased_example_overlay:
  "(case (if length [''GEOROC''] > 0
            then add_chems (example_env [] [(''KRAKATAU'', ''Krakatau'')]
                    [krakatau None (Some 5) (Some 10) (Some 6)]
                    [rock (Some 1883) (Some 5) (Some 20) None])
                  (update_chemchart (example_env [] [(''KRAKATAU'', ''Krakatau'')]
                    [krakatau None (Some 5) (Some 10) (Some 6)]
                    [rock (Some 1883) (Some 5) (Some 20) None])
                     (Some ''krakatau'') ''all'') [] ''1679 and after''
            else Inr []) of
        Inl err \<Rightarrow> Inl err
      | Inr fig2 \<Rightarrow>
          Inr \<lparr>chronogram_names = Some [title ''krakatau''], chronogram_traces = fig2,
               joined_table = Some []\<rparr>) =
   Inr \<lparr>chronogram_names = Some [''Krakatau''],
        chronogram_traces =
          [\<lparr>trace_name = ''NA2O+K2O'', trace_x = [Timestamp 1883 5 20],
             trace_customdata = [[Some (7 / 2), Some (5 / 4)]],
             trace_y = [Some (- (396879717162025 / 1125899906842624))]\<rparr>,
           \<lparr>trace_name = ''SIO2'', trace_x = [Timestamp 1883 5 20],
             trace_customdata = [[None]], trace_y = [None]\<rparr>,
           \<lparr>trace_name = ''NA2O+K2O'', trace_x = [], trace_customdata = [], trace_y = []\<rparr>,
           \<lparr>trace_name = ''SIO2'', trace_x = [], trace_customdata = [], trace_y = []\<rparr>],
        joined_table = Some []\<rparr>"
  by code_simp

lemma unaliased_example_table:
  "''Krakatau'' \<in> Volcano_Name ` set (df (example_env [] [(''KRAKATAU'', ''Krakatau'')]
                    [krakatau None (Some 5) (Some 10) (Some 6)]
                    [rock (Some 1883) (Some 5) (Some 20) None])) \<and>
   match_GVPdates_forall (example_env [] [(''KRAKATAU'', ''Krakatau'')]
                    [krakatau None (Some 5) (Some 10) (Some 6)]
                    [rock (Some 1883) (Some 5) (Some 20) None]) ''krakatau'' ''Krakatau''
     = [(1883, ''1883'', ''1883'')]"
  by code_simp

theorem unaliased_charts_witness:
  "update_charts_rock_vei (example_env [] [(''KRAKATAU'', ''Krakatau'')]
       [krakatau None (Some 5) (Some 10) (Some 6)] [rock (Some 1883) (Some 5) (Some 20) None])
     (Some ''krakatau'') ''all'' ''1679 and after'' [''GEOROC''] =
   Inr \<lparr>chronogram_names = Some [''Krakatau''],
        chronogram_traces =
          [\<lparr>trace_name = ''NA2O+K2O'', trace_x = [Timestamp 1883 5 20],
             trace_customdata = [[Some (7 / 2), Some (5 / 4)]],
             trace_y = [Some (- (396879717162025 / 1125899906842624))]\<rparr>,
           \<lparr>trace_name = ''SIO2'', trace_x = [Timestamp 1883 5 20],
             trace_customdata = [[None]], trace_y = [None]\<rparr>,
           \<lparr>trace_name = ''NA2O+K2O'', trace_x = [], trace_customdata = [], trace_y = []\<rparr>,
           \<lparr>trace_name = ''SIO2'', trace_x = [], trace_customdata = [], trace_y = []\<rparr>],
        joined_table = Some []\<rparr> \<and>
   ''Krakatau'' \<in> Volcano_Name ` set (df (example_env [] [(''KRAKATAU'', ''Krakatau'')]
                    [krakatau None (Some 5) (Some 10) (Some 6)]
                    [rock (Some 1883) (Some 5) (Some 20) None])) \<and>
   match_GVPdates_forall (example_env [] [(''KRAKATAU'', ''Krakatau'')]
                    [krakatau None (Some 5) (Some 10) (Some 6)]
                    [rock (Some 1883) (Some 5) (Some 20) None]) ''krakatau'' ''Krakatau''
     = [(1883, ''1883'', ''1883'')]"
proof -
  let ?e = "example_env [] [(''KRAKATAU'', ''Krakatau'')]
       [krakatau None (Some 5) (Some 10) (Some 6)] [rock (Some 1883) (Some 5) (Some 20) None]"
  have a: "dict_Georoc_sl ?e ''krakatau'' = None" "dict_Georoc_GVP ?e ''krakatau'' = None"
    by code_simp+
  have s: "''krakatau'' \<noteq> ''start''" by simp
  have "update_charts_rock_vei ?e (Some ''krakatau'') ''all'' ''1679 and after'' [''GEOROC''] =
     (case (if length [''GEOROC''] > 0
            then add_chems ?e (update_chemchart ?e (Some ''krakatau'') ''all'') []
                   ''1679 and after''
            else Inr []) of
        Inl err \<Rightarrow> Inl err
      | Inr fig2 \<Rightarrow>
          Inr \<lparr>chronogram_names = Some [title ''krakatau''], chronogram_traces = fig2,
               joined_table = Some []\<rparr>)"
    by (rule unaliased_charts [OF a s])
  then show ?thesis
    using unaliased_example_table by (simp only: unaliased_example_overlay)
qed

subsection \<open>Exceptions\<close>

lemma to_datetime_error: "to_datetime r = Inl err \<Longrightarrow> err = ValueError"
  by (auto simp: to_datetime_def Let_def split: option.splits if_splits)

lemma to_datetimes_error:
  "to_datetimes rows = Inl err \<longleftrightarrow>
     err = ValueError \<and> (\<exists>r \<in> set rows. to_datetime r = Inl ValueError)"
proof (induction rows)
  case Nil
  then show ?case by simp
next
  case (Cons r rows)
  show ?case
  proof (cases "to_datetime r")
    case (Inl err')
    then show ?thesis using to_datetime_error [OF Inl] by auto
  next
    case (Inr t)
    then show ?thesis using Cons.IH by (auto split: sum.splits)
  qed
qed

lemma xdate_error:
  "xdate thisperiod rows = Inl err \<longleftrightarrow>
     thisperiod = ''1679 and after'' \<and> err = ValueError \<and>
     (\<exists>r \<in> set rows. to_datetime r = Inl ValueError)"
  by (simp add: xdate_def to_datetimes_error)

lemma label_traces_error:
  "label_traces thisperiod thisdf lbl = Inl err \<longleftrightarrow>
     thisperiod = ''1679 and after'' \<and> err = ValueError \<and>
     (\<exists>r \<in> set thisdf. color r = lbl \<and> to_datetime r = Inl ValueError)"
proof (cases "xdate thisperiod (filter (\<lambda>r. color r = lbl) thisdf)")
  case (Inl err')
  then show ?thesis
    using xdate_error [of thisperiod "filter (\<lambda>r. color r = lbl) thisdf" err']
    by (auto simp: label_traces_def Let_def)
next
  case (Inr xs)
  then have "\<not> (thisperiod = ''1679 and after'' \<and>
      (\<exists>r \<in> set (filter (\<lambda>r. color r = lbl) thisdf). to_datetime r = Inl ValueError))"
    using xdate_error [of thisperiod "filter (\<lambda>r. color r = lbl) thisdf" ValueError] by auto
  then show ?thesis
    using Inr by (auto simp: label_traces_def Let_def)
qed

lemma add_traces_error:
  "add_traces thisperiod thisdf labels thisfig = Inl err \<longleftrightarrow>
     thisperiod = ''1679 and after'' \<and> err = ValueError \<and>
     (\<exists>r \<in> set thisdf. color r \<in> set labels \<and> to_datetime r = Inl ValueError)"
proof (induction labels arbitrary: thisfig)
  case Nil
  then show ?case by simp
next
  case (Cons lbl rest)
  show ?case
  proof (cases "label_traces thisperiod thisdf lbl")
    case (Inl err')
    then show ?thesis
      using label_traces_error [of thisperiod thisdf lbl err'] by auto
  next
    case (Inr ts)
    then have "\<not> (thisperiod = ''1679 and after'' \<and>
        (\<exists>r \<in> set thisdf. color r = lbl \<and> to_datetime r = Inl ValueError))"
      using label_traces_error [of thisperiod thisdf lbl ValueError] by auto
    then show ?thesis
      using Inr Cons.IH [of "thisfig @ ts"] by auto
  qed
qed

text \<open>
  When the two functions raise. \<^verbatim>\<open>add_chems\<close> raises exactly under ``1679 and after'',
  when a kept sample of one of the labels has, after the cleaning, a year, a month and a day
  that \<^verbatim>\<open>pd.to_datetime\<close> refuses. The join loop raises exactly when a matched date has
  no event row. A date selector that the matcher does not find gives the empty table.
\<close>

lemma add_chems_error:
  "add_chems e thisdf thisfig thisperiod = Inl err \<longleftrightarrow>
     thisperiod = ''1679 and after'' \<and> err = ValueError \<and>
     (\<exists>r \<in> set (prepare thisperiod thisdf).
        color r \<in> set (lbls e) \<and> to_datetime r = Inl ValueError)"
  by (simp add: add_chems_def add_traces_error)

lemma joiner_not_found:
  assumes "thisdate \<noteq> ''all''"
    and "fst (match_GVPdates_date e name thisdate (resolve_name e name)) = ''not found''"
  shows "update_joint_chemchart e (Some name) thisdf thisdate = Inr []"
  using assms by (simp add: update_joint_chemchart_def Let_def matched_dates_def)

text \<open>
  C2. The claim has no input raise: missing or out-of-range calendar fields and an empty
  set of event rows are to give fewer rows. The code raises. With the sample overlay on and
  the period ``1679 and after'', a sample of day -3 (a day the cleaning misses, see C7)
  makes \<^verbatim>\<open>pd.to_datetime\<close> and so the callback raise \<^verbatim>\<open>ValueError\<close>; so does a
  sample of 31 April, whose day the cleaning keeps. In the join, a matched date with no
  event row makes \<^verbatim>\<open>dfmatch[colsGvp].values[0]\<close> raise \<^verbatim>\<open>IndexError\<close>.
\<close>

theorem calendar_field_raises:
  "update_charts_rock_vei
     (example_env [] [(''KRAKATAU'', ''Krakatau'')] [krakatau None (Some 5) (Some 10) (Some 6)]
        [rock (Some 1883) (Some 5) (Some (- 3)) None])
     (Some ''KRAKATAU'') ''all'' ''1679 and after'' [''GEOROC''] = Inl ValueError \<and>
   update_charts_rock_vei
     (example_env [] [(''KRAKATAU'', ''Krakatau'')] [krakatau None (Some 5) (Some 10) (Some 6)]
        [rock (Some 1883) (Some 4) (Some 31) None])
     (Some ''KRAKATAU'') ''all'' ''1679 and after'' [''GEOROC''] = Inl ValueError \<and>
   join_date (example_env [] [] [] []) [] [rock (Some 1883) (Some 5) (Some 20) None]
     (1883, ''1883'', ''1883'') = Inl IndexError"
  by code_simp

end
